theory Spec2Isabelle
  imports Main "HOL-Library.AList"
begin

section \<open>Data model of \<^verbatim>\<open>app/services/kiro_service.py\<close>\<close>

text \<open>
  \<^verbatim>\<open>KiroService\<close> forwards every operation to the plugin API. The collaborators it
  calls (the key repository, \<^verbatim>\<open>decrypt_api_key\<close>, the HTTP client) are not part of
  the file; they are parameters of the model, collected in the record \<open>env\<close>. What a call
  does to the outside is recorded in the record \<open>state\<close>: the store lookups, the
  decryptions, the requests handed to the HTTP client, the number of streaming
  responses that are currently open and the number of chunks read from them.
\<close>

subsection \<open>Payloads\<close>

text \<open>
  \<^verbatim>\<open>Dict[str, Any]\<close>: a JSON value. An object is an association list in insertion
  order, as a Python dict is.
\<close>

datatype json =
    JNull
  | JBool bool
  | JInt int
  | JStr string
  | JArr "json list"
  | JObj "(string \<times> json) list"

subsection \<open>Credential record, requests and responses\<close>

text \<open>The two attributes of a key record that the service reads.\<close>

record key_record =
  api_key :: string
  is_active :: bool

text \<open>The keyword arguments of \<^verbatim>\<open>client.request\<close> and \<^verbatim>\<open>client.stream\<close>.\<close>

record request =
  req_method :: string
  req_url :: string
  req_json :: "json option"
  req_params :: "(string \<times> json) list option"
  req_headers :: "(string \<times> string) list"
  req_timeout :: nat

text \<open>A response whose body has been read.\<close>

record response =
  status_code :: int
  content :: string

text \<open>
  The content decoder that the HTTP library selects from the Content-Encoding header of a
  response. It is fed the chunks of the body one by one and answers each with the bytes
  it has decoded so far (possibly none); at the end of the body it is flushed. Its
  internal state is a function of the chunks it has been fed, so both operations take
  that list. Without a Content-Encoding the decoder is the identity.
\<close>

record content_decoder =
  dec_decode :: "string list \<Rightarrow> string \<Rightarrow> string"
  dec_flush :: "string list \<Rightarrow> string"

definition identity_decoder :: content_decoder where
  "identity_decoder = \<lparr>dec_decode = (\<lambda>fed raw. raw), dec_flush = (\<lambda>fed. [])\<rparr>"

text \<open>
  A streamed response: its status line, its content decoder, then the chunks of the body
  as the upstream delivers them on the connection, then either the end of the body or a
  failure of the connection.
\<close>

datatype stream_end = EndOfStream | ReadError

record stream_response =
  stream_status :: int
  stream_decoder :: content_decoder
  stream_chunks :: "string list"
  stream_final :: stream_end

subsection \<open>Errors\<close>

text \<open>
  The exceptions a call can end with: the \<^verbatim>\<open>ValueError\<close> of
  \<^verbatim>\<open>_get_user_plugin_key\<close>, the \<^verbatim>\<open>HTTPStatusError\<close> of
  \<^verbatim>\<open>raise_for_status\<close> (with the status code and, when the body has been read,
  the body), a failure of the connection, and a body that \<^verbatim>\<open>response.json()\<close>
  cannot parse.
\<close>

datatype error =
    ValueError string
  | HTTPStatusError int "string option"
  | TransportError
  | JSONDecodeError

subsection \<open>Collaborators\<close>

text \<open>
  \<open>get_by_user_id\<close> is the repository's query (given the repository handle of the
  service), \<open>decrypt_api_key\<close> the cipher, \<open>client_request\<close> and \<open>client_stream\<close> what
  the upstream answers to a request (\<open>None\<close>: the connection fails), and
  \<open>response_json\<close> the JSON parser of \<^verbatim>\<open>response.json()\<close> (\<open>None\<close>: the
  body is not JSON). The repository query and the cipher are taken as total functions:
  what they may raise themselves is decided outside this file.
\<close>

record env =
  get_by_user_id :: "nat \<Rightarrow> int \<Rightarrow> key_record option"
  decrypt_api_key :: "string \<Rightarrow> string"
  client_request :: "request \<Rightarrow> response option"
  client_stream :: "request \<Rightarrow> stream_response option"
  response_json :: "string \<Rightarrow> json option"

subsection \<open>The service object and the observable state\<close>

record settings =
  plugin_api_base_url :: string

record KiroService =
  db :: nat
  service_settings :: settings
  plugin_api_key_repo :: nat
  base_url :: string

text \<open>\<^verbatim>\<open>__init__\<close>: the repository is built on the session that is passed in.\<close>

definition init :: "settings \<Rightarrow> nat \<Rightarrow> KiroService" where
  "init get_settings session =
     \<lparr>db = session, service_settings = get_settings, plugin_api_key_repo = session,
      base_url = plugin_api_base_url get_settings\<rparr>"

record state =
  self :: KiroService
  lookups :: "int list"
  decrypts :: "string list"
  sent :: "request list"
  open_streams :: int
  chunks_read :: nat

text \<open>The class attribute \<^verbatim>\<open>SUPPORTED_MODELS\<close>.\<close>

definition SUPPORTED_MODELS :: "string list" where
  "SUPPORTED_MODELS =
     [''claude-sonnet-4-5'',
      ''claude-sonnet-4-5-20250929'',
      ''claude-sonnet-4-20250514'',
      ''claude-opus-4-5-20251101'',
      ''claude-haiku-4-5-20251001'']"

section \<open>Token resolution\<close>

text \<open>
  The message of the \<^verbatim>\<open>ValueError\<close>, as the bytes of its UTF-8 encoding (the
  source's literal is Chinese for "the user has not configured a plugin API key").
\<close>

definition not_configured_message :: string where
  "not_configured_message =
     map char_of
       [231, 148, 168, 230, 136, 183, 230, 156, 170, 233, 133, 141, 231, 189, 174,
        230, 143, 146, 228, 187, 182, 65, 80, 73, 229, 175, 134, 233, 146, 165 :: nat]"

definition get_user_plugin_key :: "env \<Rightarrow> int \<Rightarrow> state \<Rightarrow> (error + string) \<times> state" where
  "get_user_plugin_key E user_id s =
     (let key_rec = get_by_user_id E (plugin_api_key_repo (self s)) user_id;
          s1 = s\<lparr>lookups := lookups s @ [user_id]\<rparr>
      in case key_rec of
           None \<Rightarrow> (Inl (ValueError not_configured_message), s1)
         | Some r \<Rightarrow>
             if \<not> is_active r then (Inl (ValueError not_configured_message), s1)
             else (Inr (decrypt_api_key E (api_key r)),
                   s1\<lparr>decrypts := decrypts s1 @ [api_key r]\<rparr>))"

section \<open>The single-response proxy\<close>

text \<open>
  \<^verbatim>\<open>response.raise_for_status()\<close> of the HTTP library: every status outside
  200..299 raises.
\<close>

definition is_success :: "int \<Rightarrow> bool" where
  "is_success code = (200 \<le> code \<and> code \<le> 299)"

definition raise_for_status :: "response \<Rightarrow> error + unit" where
  "raise_for_status resp =
     (if is_success (status_code resp) then Inr ()
      else Inl (HTTPStatusError (status_code resp) (Some (content resp))))"

definition bearer_headers :: "string \<Rightarrow> (string \<times> string) list" where
  "bearer_headers key = [(''Authorization'', ''Bearer '' @ key)]"

definition proxy_request ::
  "env \<Rightarrow> int \<Rightarrow> string \<Rightarrow> string \<Rightarrow> json option \<Rightarrow> (string \<times> json) list option \<Rightarrow>
   state \<Rightarrow> (error + json) \<times> state" where
  "proxy_request E user_id meth path json_data ps s =
     (case get_user_plugin_key E user_id s of
        (Inl e, s1) \<Rightarrow> (Inl e, s1)
      | (Inr key, s1) \<Rightarrow>
          (let rq = \<lparr>req_method = meth, req_url = base_url (self s1) @ path,
                     req_json = json_data, req_params = ps,
                     req_headers = bearer_headers key, req_timeout = 300\<rparr>;
               s2 = s1\<lparr>sent := sent s1 @ [rq]\<rparr>
           in case client_request E rq of
                None \<Rightarrow> (Inl TransportError, s2)
              | Some resp \<Rightarrow>
                  (case raise_for_status resp of
                     Inl e \<Rightarrow> (Inl e, s2)
                   | Inr _ \<Rightarrow>
                       (case response_json E (content resp) of
                          None \<Rightarrow> (Inl JSONDecodeError, s2)
                        | Some doc \<Rightarrow> (Inr doc, s2)))))"

section \<open>The public operations\<close>

subsection \<open>Account management\<close>

definition get_oauth_authorize_url ::
  "env \<Rightarrow> int \<Rightarrow> string \<Rightarrow> int \<Rightarrow> state \<Rightarrow> (error + json) \<times> state" where
  "get_oauth_authorize_url E user_id provider is_shared =
     proxy_request E user_id ''POST'' ''/api/kiro/oauth/authorize''
       (Some (JObj [(''provider'', JStr provider), (''is_shared'', JInt is_shared)])) None"

definition get_oauth_status :: "env \<Rightarrow> int \<Rightarrow> string \<Rightarrow> state \<Rightarrow> (error + json) \<times> state" where
  "get_oauth_status E user_id st =
     proxy_request E user_id ''GET'' (''/api/kiro/oauth/status/'' @ st) None None"

definition create_account :: "env \<Rightarrow> int \<Rightarrow> json \<Rightarrow> state \<Rightarrow> (error + json) \<times> state" where
  "create_account E user_id account_data =
     proxy_request E user_id ''POST'' ''/api/kiro/accounts'' (Some account_data) None"

definition get_accounts :: "env \<Rightarrow> int \<Rightarrow> state \<Rightarrow> (error + json) \<times> state" where
  "get_accounts E user_id =
     proxy_request E user_id ''GET'' ''/api/kiro/accounts'' None None"

definition get_account :: "env \<Rightarrow> int \<Rightarrow> string \<Rightarrow> state \<Rightarrow> (error + json) \<times> state" where
  "get_account E user_id account_id =
     proxy_request E user_id ''GET'' (''/api/kiro/accounts/'' @ account_id) None None"

definition update_account_status ::
  "env \<Rightarrow> int \<Rightarrow> string \<Rightarrow> int \<Rightarrow> state \<Rightarrow> (error + json) \<times> state" where
  "update_account_status E user_id account_id status =
     proxy_request E user_id ''PUT'' (''/api/kiro/accounts/'' @ account_id @ ''/status'')
       (Some (JObj [(''status'', JInt status)])) None"

definition update_account_name ::
  "env \<Rightarrow> int \<Rightarrow> string \<Rightarrow> string \<Rightarrow> state \<Rightarrow> (error + json) \<times> state" where
  "update_account_name E user_id account_id account_name =
     proxy_request E user_id ''PUT'' (''/api/kiro/accounts/'' @ account_id @ ''/name'')
       (Some (JObj [(''account_name'', JStr account_name)])) None"

definition get_account_balance ::
  "env \<Rightarrow> int \<Rightarrow> string \<Rightarrow> state \<Rightarrow> (error + json) \<times> state" where
  "get_account_balance E user_id account_id =
     proxy_request E user_id ''GET'' (''/api/kiro/accounts/'' @ account_id @ ''/balance'')
       None None"

text \<open>
  The query dictionary of \<^verbatim>\<open>get_account_consumption\<close>, built by item assignment
  on an empty dict: integers are tested with \<^verbatim>\<open>is not None\<close>, strings by their
  truth value (the empty string is false).
\<close>

definition consumption_params ::
  "int option \<Rightarrow> int option \<Rightarrow> string option \<Rightarrow> string option \<Rightarrow> (string \<times> json) list" where
  "consumption_params limit offset start_date end_date =
     (let ps = [];
          ps = (case limit of None \<Rightarrow> ps | Some n \<Rightarrow> AList.update ''limit'' (JInt n) ps);
          ps = (case offset of None \<Rightarrow> ps | Some n \<Rightarrow> AList.update ''offset'' (JInt n) ps);
          ps = (case start_date of None \<Rightarrow> ps
                | Some d \<Rightarrow> if d \<noteq> [] then AList.update ''start_date'' (JStr d) ps else ps);
          ps = (case end_date of None \<Rightarrow> ps
                | Some d \<Rightarrow> if d \<noteq> [] then AList.update ''end_date'' (JStr d) ps else ps)
      in ps)"

definition get_account_consumption ::
  "env \<Rightarrow> int \<Rightarrow> string \<Rightarrow> int option \<Rightarrow> int option \<Rightarrow> string option \<Rightarrow> string option \<Rightarrow>
   state \<Rightarrow> (error + json) \<times> state" where
  "get_account_consumption E user_id account_id limit offset start_date end_date =
     proxy_request E user_id ''GET'' (''/api/kiro/accounts/'' @ account_id @ ''/consumption'')
       None (Some (consumption_params limit offset start_date end_date))"

text \<open>The query dictionary of \<^verbatim>\<open>get_user_consumption_stats\<close>.\<close>

definition stats_params :: "string option \<Rightarrow> string option \<Rightarrow> (string \<times> json) list" where
  "stats_params start_date end_date =
     (let ps = [];
          ps = (case start_date of None \<Rightarrow> ps
                | Some d \<Rightarrow> if d \<noteq> [] then AList.update ''start_date'' (JStr d) ps else ps);
          ps = (case end_date of None \<Rightarrow> ps
                | Some d \<Rightarrow> if d \<noteq> [] then AList.update ''end_date'' (JStr d) ps else ps)
      in ps)"

definition get_user_consumption_stats ::
  "env \<Rightarrow> int \<Rightarrow> string option \<Rightarrow> string option \<Rightarrow> state \<Rightarrow> (error + json) \<times> state" where
  "get_user_consumption_stats E user_id start_date end_date =
     proxy_request E user_id ''GET'' ''/api/kiro/consumption/stats''
       None (Some (stats_params start_date end_date))"

definition delete_account :: "env \<Rightarrow> int \<Rightarrow> string \<Rightarrow> state \<Rightarrow> (error + json) \<times> state" where
  "delete_account E user_id account_id =
     proxy_request E user_id ''DELETE'' (''/api/kiro/accounts/'' @ account_id) None None"

subsection \<open>The OpenAI-compatible API\<close>

definition get_models :: "env \<Rightarrow> int \<Rightarrow> state \<Rightarrow> (error + json) \<times> state" where
  "get_models E user_id =
     proxy_request E user_id ''GET'' ''/v1/kiro/models'' None None"

definition chat_completions :: "env \<Rightarrow> int \<Rightarrow> json \<Rightarrow> state \<Rightarrow> (error + json) \<times> state" where
  "chat_completions E user_id request_data =
     proxy_request E user_id ''POST'' ''/v1/kiro/chat/completions'' (Some request_data) None"

subsection \<open>All single-response operations at once\<close>

text \<open>A call of one of the thirteen methods that return a document, with its arguments.\<close>

datatype call =
    Get_oauth_authorize_url string int
  | Get_oauth_status string
  | Create_account json
  | Get_accounts
  | Get_account string
  | Update_account_status string int
  | Update_account_name string string
  | Get_account_balance string
  | Get_account_consumption string "int option" "int option" "string option" "string option"
  | Get_user_consumption_stats "string option" "string option"
  | Delete_account string
  | Get_models
  | Chat_completions json

fun invoke :: "env \<Rightarrow> int \<Rightarrow> call \<Rightarrow> state \<Rightarrow> (error + json) \<times> state" where
  "invoke E u (Get_oauth_authorize_url provider is_shared) =
     get_oauth_authorize_url E u provider is_shared"
| "invoke E u (Get_oauth_status st) = get_oauth_status E u st"
| "invoke E u (Create_account account_data) = create_account E u account_data"
| "invoke E u Get_accounts = get_accounts E u"
| "invoke E u (Get_account account_id) = get_account E u account_id"
| "invoke E u (Update_account_status account_id status) =
     update_account_status E u account_id status"
| "invoke E u (Update_account_name account_id account_name) =
     update_account_name E u account_id account_name"
| "invoke E u (Get_account_balance account_id) = get_account_balance E u account_id"
| "invoke E u (Get_account_consumption account_id limit offset start_date end_date) =
     get_account_consumption E u account_id limit offset start_date end_date"
| "invoke E u (Get_user_consumption_stats start_date end_date) =
     get_user_consumption_stats E u start_date end_date"
| "invoke E u (Delete_account account_id) = delete_account E u account_id"
| "invoke E u Get_models = get_models E u"
| "invoke E u (Chat_completions request_data) = chat_completions E u request_data"

section \<open>The streaming proxy\<close>

text \<open>
  \<^verbatim>\<open>_proxy_stream_request\<close> is an asynchronous generator. Calling it runs none of
  its body: it returns a generator object (\<open>Created\<close>, holding the arguments). Each
  \<^verbatim>\<open>__anext__\<close> runs the body up to the next \<^verbatim>\<open>yield\<close>, where the
  generator is suspended inside both \<^verbatim>\<open>async with\<close> blocks with the streamed
  response open: \<open>Suspended\<close> holds the decoder, the chunks it has been fed, and the
  chunks and the end of the body that have not been read yet; \<open>Flushed\<close> is the
  suspension at the decoder's last output, when the whole body has been read. When the
  body of the generator returns or raises, the \<^verbatim>\<open>async with\<close> blocks are left,
  the response is closed and the generator is \<open>Finished\<close>.
\<close>

datatype gen =
    Created int string string "json option"
  | Suspended content_decoder "string list" "string list" stream_end
  | Flushed
  | Finished

datatype outcome = Yield string | StopAsyncIteration | Raise error

definition proxy_stream_request :: "int \<Rightarrow> string \<Rightarrow> string \<Rightarrow> json option \<Rightarrow> gen" where
  "proxy_stream_request user_id meth path json_data = Created user_id meth path json_data"

text \<open>Entering and leaving \<^verbatim>\<open>async with client.stream(...) as response\<close>.\<close>

definition open_stream :: "state \<Rightarrow> state" where
  "open_stream s = s\<lparr>open_streams := open_streams s + 1\<rparr>"

definition close_stream :: "state \<Rightarrow> state" where
  "close_stream s = s\<lparr>open_streams := open_streams s - 1\<rparr>"

text \<open>Reading the next chunk of the body from the connection.\<close>

definition read_chunk :: "state \<Rightarrow> state" where
  "read_chunk s = s\<lparr>chunks_read := chunks_read s + 1\<rparr>"

text \<open>
  The loop \<^verbatim>\<open>async for chunk in response.aiter_bytes(): yield chunk\<close> from the
  point it has reached. \<^verbatim>\<open>aiter_bytes\<close> reads the next chunk from the
  connection, drops it when it is empty, feeds it to the content decoder otherwise and
  hands on what the decoder answers unless that is empty; so the loop reads on until
  there is something to yield. At the end of the body the decoder is flushed and what is
  left, if anything, is yielded as a last chunk; then the loop and the blocks are left.
  A failure of the connection leaves the blocks with the exception.
\<close>

fun resume ::
  "content_decoder \<Rightarrow> string list \<Rightarrow> string list \<Rightarrow> stream_end \<Rightarrow> state \<Rightarrow>
   outcome \<times> gen \<times> state" where
  "resume D fed (raw # rest) fin s =
     (if raw = [] then resume D fed rest fin (read_chunk s)
      else if dec_decode D fed raw = [] then resume D (fed @ [raw]) rest fin (read_chunk s)
      else (Yield (dec_decode D fed raw), Suspended D (fed @ [raw]) rest fin, read_chunk s))"
| "resume D fed [] EndOfStream s =
     (if dec_flush D fed = [] then (StopAsyncIteration, Finished, close_stream s)
      else (Yield (dec_flush D fed), Flushed, s))"
| "resume D fed [] ReadError s = (Raise TransportError, Finished, close_stream s)"

fun anext :: "env \<Rightarrow> gen \<Rightarrow> state \<Rightarrow> outcome \<times> gen \<times> state" where
  "anext E (Created user_id meth path json_data) s =
     (case get_user_plugin_key E user_id s of
        (Inl e, s1) \<Rightarrow> (Raise e, Finished, s1)
      | (Inr key, s1) \<Rightarrow>
          (let rq = \<lparr>req_method = meth, req_url = base_url (self s1) @ path,
                     req_json = json_data, req_params = None,
                     req_headers = bearer_headers key, req_timeout = 300\<rparr>;
               s2 = s1\<lparr>sent := sent s1 @ [rq]\<rparr>
           in case client_stream E rq of
                None \<Rightarrow> (Raise TransportError, Finished, s2)
              | Some resp \<Rightarrow>
                  (let s3 = open_stream s2
                   in if is_success (stream_status resp)
                      then resume (stream_decoder resp) [] (stream_chunks resp)
                             (stream_final resp) s3
                      else (Raise (HTTPStatusError (stream_status resp) None), Finished,
                            close_stream s3))))"
| "anext E (Suspended D fed rest fin) s = resume D fed rest fin s"
| "anext E Flushed s = (StopAsyncIteration, Finished, close_stream s)"
| "anext E Finished s = (StopAsyncIteration, Finished, s)"

text \<open>
  \<^verbatim>\<open>aclose()\<close>: \<^verbatim>\<open>GeneratorExit\<close> is raised at the \<^verbatim>\<open>yield\<close> where the
  generator is suspended, which leaves the \<^verbatim>\<open>async with\<close> blocks. A generator
  that has not started, or has finished, runs nothing.
\<close>

fun aclose :: "gen \<Rightarrow> state \<Rightarrow> gen \<times> state" where
  "aclose (Created user_id meth path json_data) s = (Finished, s)"
| "aclose (Suspended D fed rest fin) s = (Finished, close_stream s)"
| "aclose Flushed s = (Finished, close_stream s)"
| "aclose Finished s = (Finished, s)"

text \<open>
  \<^verbatim>\<open>chat_completions_stream\<close> is a generator of its own: it iterates the
  generator of \<^verbatim>\<open>_proxy_stream_request\<close> and yields every chunk it gets.
\<close>

datatype stream_gen =
    Unstarted int json
  | Relaying gen
  | Exhausted

definition chat_completions_stream :: "int \<Rightarrow> json \<Rightarrow> stream_gen" where
  "chat_completions_stream user_id request_data = Unstarted user_id request_data"

fun relay :: "outcome \<times> gen \<times> state \<Rightarrow> outcome \<times> stream_gen \<times> state" where
  "relay (Yield chunk, g, s) = (Yield chunk, Relaying g, s)"
| "relay (StopAsyncIteration, g, s) = (StopAsyncIteration, Exhausted, s)"
| "relay (Raise e, g, s) = (Raise e, Exhausted, s)"

fun anext_stream :: "env \<Rightarrow> stream_gen \<Rightarrow> state \<Rightarrow> outcome \<times> stream_gen \<times> state" where
  "anext_stream E (Unstarted user_id request_data) s =
     relay (anext E
       (proxy_stream_request user_id ''POST'' ''/v1/kiro/chat/completions''
          (Some request_data)) s)"
| "anext_stream E (Relaying g) s = relay (anext E g s)"
| "anext_stream E Exhausted s = (StopAsyncIteration, Exhausted, s)"

section \<open>Consumers of a chunk sequence\<close>

text \<open>
  The number of chunks a generator can still yield bounds the iterations of a consumer.
  For a generator that has not started it is read off the generator it becomes.
\<close>

fun remaining :: "gen \<Rightarrow> nat" where
  "remaining (Created user_id meth path json_data) = 0"
| "remaining (Suspended D fed rest fin) = Suc (Suc (length rest))"
| "remaining Flushed = 1"
| "remaining Finished = 0"

definition pending :: "env \<Rightarrow> gen \<Rightarrow> state \<Rightarrow> nat" where
  "pending E g s =
     (case g of
        Created user_id meth path json_data \<Rightarrow> Suc (Suc (remaining (fst (snd (anext E g s)))))
      | _ \<Rightarrow> remaining g)"

definition pending_stream :: "env \<Rightarrow> stream_gen \<Rightarrow> state \<Rightarrow> nat" where
  "pending_stream E G s =
     (case G of
        Unstarted user_id request_data \<Rightarrow>
          Suc (pending E
            (proxy_stream_request user_id ''POST'' ''/v1/kiro/chat/completions''
               (Some request_data)) s)
      | Relaying g \<Rightarrow> pending E g s
      | Exhausted \<Rightarrow> 0)"

lemma resume_yield:
  "resume D fed rest fin s = (Yield c, g', s') \<Longrightarrow>
   remaining g' < Suc (Suc (length rest)) \<and> (\<forall>u m p j. g' \<noteq> Created u m p j)"
proof (induction D fed rest fin s rule: resume.induct)
  case (1 D fed raw rest fin s)
  then show ?case by (auto split: if_splits)
next
  case (2 D fed s)
  then show ?case by (auto split: if_splits)
next
  case (3 D fed s)
  then show ?case by simp
qed

lemma anext_yield:
  "anext E g s = (Yield c, g', s') \<Longrightarrow> \<forall>u m p j. g' \<noteq> Created u m p j"
  by (cases g)
    (auto simp: Let_def split: prod.splits sum.splits option.splits if_splits
      dest: resume_yield)

lemma anext_pending:
  assumes "anext E g s = (Yield c, g', s')"
  shows "pending E g' s' < pending E g s"
proof -
  from assms have started: "\<forall>u m p j. g' \<noteq> Created u m p j"
    by (rule anext_yield)
  then have g': "pending E g' s' = remaining g'"
    by (cases g') (simp_all add: pending_def)
  show ?thesis
  proof (cases g)
    case (Created u m p j)
    with assms g' show ?thesis by (simp add: pending_def)
  next
    case (Suspended D fed rest fin)
    with assms g' resume_yield[of D fed rest fin s c g' s'] show ?thesis
      by (simp add: pending_def)
  next
    case Flushed
    with assms show ?thesis by simp
  next
    case Finished
    with assms show ?thesis by simp
  qed
qed

lemma relay_yield:
  "relay r = (Yield c, G, s') \<Longrightarrow> \<exists>g. r = (Yield c, g, s') \<and> G = Relaying g"
  by (cases r rule: relay.cases) auto

lemma anext_stream_pending:
  assumes "anext_stream E G s = (Yield c, G', s')"
  shows "pending_stream E G' s' < pending_stream E G s"
proof (cases G)
  case (Unstarted u d)
  with assms obtain g' where
    "anext E (proxy_stream_request u ''POST'' ''/v1/kiro/chat/completions'' (Some d)) s
       = (Yield c, g', s')" and "G' = Relaying g'"
    using relay_yield by fastforce
  then show ?thesis using Unstarted anext_pending
    by (fastforce simp: pending_stream_def)
next
  case (Relaying g)
  with assms obtain g' where "anext E g s = (Yield c, g', s')" and "G' = Relaying g'"
    using relay_yield by fastforce
  then show ?thesis using Relaying anext_pending by (simp add: pending_stream_def)
next
  case Exhausted
  with assms show ?thesis by simp
qed

text \<open>
  \<^verbatim>\<open>async for chunk in g\<close>, run to its end: the chunks observed, how the
  iteration ended (\<open>StopAsyncIteration\<close> is the normal end of the loop), and the
  generator and the state that are left.
\<close>

function consume :: "env \<Rightarrow> gen \<Rightarrow> state \<Rightarrow> string list \<times> outcome \<times> gen \<times> state" where
  "consume E g s =
     (case anext E g s of
        (Yield chunk, g', s') \<Rightarrow>
          (case consume E g' s' of (chunks, fin, r) \<Rightarrow> (chunk # chunks, fin, r))
      | (StopAsyncIteration, g', s') \<Rightarrow> ([], StopAsyncIteration, g', s')
      | (Raise e, g', s') \<Rightarrow> ([], Raise e, g', s'))"
  by pat_completeness auto
termination
proof (relation "measure (\<lambda>(E, g, s). pending E g s)", goal_cases)
  case 1
  show ?case by simp
next
  case (2 E g s x y chunk g' s')
  then have "anext E g s = (Yield chunk, g', s')" by simp
  then show ?case using anext_pending by simp
qed

function consume_stream ::
  "env \<Rightarrow> stream_gen \<Rightarrow> state \<Rightarrow> string list \<times> outcome \<times> stream_gen \<times> state" where
  "consume_stream E G s =
     (case anext_stream E G s of
        (Yield chunk, G', s') \<Rightarrow>
          (case consume_stream E G' s' of (chunks, fin, r) \<Rightarrow> (chunk # chunks, fin, r))
      | (StopAsyncIteration, G', s') \<Rightarrow> ([], StopAsyncIteration, G', s')
      | (Raise e, G', s') \<Rightarrow> ([], Raise e, G', s'))"
  by pat_completeness auto
termination
proof (relation "measure (\<lambda>(E, G, s). pending_stream E G s)", goal_cases)
  case 1
  show ?case by simp
next
  case (2 E G s x y chunk G' s')
  then have "anext_stream E G s = (Yield chunk, G', s')" by simp
  then show ?case using anext_stream_pending by simp
qed



text \<open>Whether a generator holds an open streamed response.\<close>

fun held :: "gen \<Rightarrow> int" where
  "held (Created user_id meth path json_data) = 0"
| "held (Suspended D fed rest fin) = 1"
| "held Flushed = 1"
| "held Finished = 0"


text \<open>
  What \<^verbatim>\<open>response.aiter_bytes()\<close> delivers for a body: the non-empty answers of
  the decoder to the non-empty chunks, in order, and at the normal end of the body the
  decoder's non-empty flush.
\<close>

fun decoded :: "content_decoder \<Rightarrow> string list \<Rightarrow> string list \<Rightarrow> string list" where
  "decoded D fed [] = []"
| "decoded D fed (raw # rest) =
     (if raw = [] then decoded D fed rest
      else if dec_decode D fed raw = [] then decoded D (fed @ [raw]) rest
      else dec_decode D fed raw # decoded D (fed @ [raw]) rest)"

definition flushed :: "content_decoder \<Rightarrow> string list \<Rightarrow> string list \<Rightarrow> string list" where
  "flushed D fed raws =
     (if dec_flush D (fed @ filter (\<lambda>raw. raw \<noteq> []) raws) = [] then []
      else [dec_flush D (fed @ filter (\<lambda>raw. raw \<noteq> []) raws)])"

definition aiter_bytes :: "content_decoder \<Rightarrow> string list \<Rightarrow> stream_end \<Rightarrow> string list" where
  "aiter_bytes D raws fin =
     decoded D [] raws @ (case fin of EndOfStream \<Rightarrow> flushed D [] raws | ReadError \<Rightarrow> [])"

section \<open>A concrete deployment\<close>

text \<open>
  Three users: user 1 has an active key, user 2 an inactive one, every other user has
  none. The cipher strips a four-byte prefix. The upstream answers every request with
  the given response. A streamed body of the given chunks without Content-Encoding is
  \<open>demo_stream\<close>.
\<close>

definition demo_store :: "nat \<Rightarrow> int \<Rightarrow> key_record option" where
  "demo_store repo user_id =
     (if user_id = 1 then Some \<lparr>api_key = ''enc:alice'', is_active = True\<rparr>
      else if user_id = 2 then Some \<lparr>api_key = ''enc:bob'', is_active = False\<rparr>
      else None)"

definition demo_json :: "string \<Rightarrow> json option" where
  \<open>demo_json body =
     (if body = ''{"error":"not found"}'' then Some (JObj [(''error'', JStr ''not found'')])
      else if body = ''{"data":[]}'' then Some (JObj [(''data'', JArr [])])
      else if body = ''{"data":["m"]}'' then Some (JObj [(''data'', JArr [JStr ''m''])])
      else None)\<close>

definition demo_env :: "response option \<Rightarrow> stream_response option \<Rightarrow> env" where
  "demo_env answer streamed =
     \<lparr>get_by_user_id = demo_store, decrypt_api_key = drop 4,
      client_request = (\<lambda>rq. answer), client_stream = (\<lambda>rq. streamed),
      response_json = demo_json\<rparr>"

definition demo_state :: state where
  "demo_state =
     \<lparr>self = init \<lparr>plugin_api_base_url = ''http://plugin''\<rparr> 0,
      lookups = [], decrypts = [], sent = [], open_streams = 0, chunks_read = 0\<rparr>"

definition demo_stream :: "int \<Rightarrow> string list \<Rightarrow> stream_end \<Rightarrow> stream_response" where
  "demo_stream code chunks fin =
     \<lparr>stream_status = code, stream_decoder = identity_decoder, stream_chunks = chunks,
      stream_final = fin\<rparr>"

section \<open>Lemmas on token resolution and on the proxy\<close>

lemma key_missing:
  "get_by_user_id E (plugin_api_key_repo (self s)) u = None \<Longrightarrow>
   get_user_plugin_key E u s =
     (Inl (ValueError not_configured_message), s\<lparr>lookups := lookups s @ [u]\<rparr>)"
  by (simp add: get_user_plugin_key_def)

lemma key_inactive:
  "get_by_user_id E (plugin_api_key_repo (self s)) u = Some r \<Longrightarrow> \<not> is_active r \<Longrightarrow>
   get_user_plugin_key E u s =
     (Inl (ValueError not_configured_message), s\<lparr>lookups := lookups s @ [u]\<rparr>)"
  by (simp add: get_user_plugin_key_def)

lemma key_active:
  "get_by_user_id E (plugin_api_key_repo (self s)) u = Some r \<Longrightarrow> is_active r \<Longrightarrow>
   get_user_plugin_key E u s =
     (Inr (decrypt_api_key E (api_key r)),
      s\<lparr>lookups := lookups s @ [u], decrypts := decrypts s @ [api_key r]\<rparr>)"
  by (simp add: get_user_plugin_key_def)

lemma proxy_request_not_configured:
  assumes "get_user_plugin_key E u s = (Inl e, s1)"
  shows "proxy_request E u m p j q s = (Inl e, s1)"
  using assms by (simp add: proxy_request_def)

lemma invoke_not_configured:
  assumes "get_user_plugin_key E u s = (Inl e, s1)"
  shows "invoke E u c s = (Inl e, s1)"
  by (cases c)
    (simp_all add: proxy_request_not_configured[OF assms] get_oauth_authorize_url_def
      get_oauth_status_def create_account_def get_accounts_def get_account_def
      update_account_status_def update_account_name_def get_account_balance_def
      get_account_consumption_def get_user_consumption_stats_def delete_account_def
      get_models_def chat_completions_def)

lemma anext_not_configured:
  assumes "get_user_plugin_key E u s = (Inl e, s1)"
  shows "anext E (proxy_stream_request u m p j) s = (Raise e, Finished, s1)"
  using assms by (simp add: proxy_stream_request_def)

lemma consume_raise:
  "anext E g s = (Raise e, g', s') \<Longrightarrow> consume E g s = ([], Raise e, g', s')"
  by simp

lemma consume_stream_raise:
  "anext_stream E G s = (Raise e, G', s') \<Longrightarrow> consume_stream E G s = ([], Raise e, G', s')"
  by simp

section \<open>Lemmas on the streaming proxy\<close>

declare consume.simps [simp del] consume_stream.simps [simp del]

lemma close_open_stream: "close_stream (open_stream s) = s"
  by (simp add: close_stream_def open_stream_def)

lemma anext_active:
  assumes "get_by_user_id E (plugin_api_key_repo (self s)) u = Some r" and "is_active r"
    and "rq = \<lparr>req_method = m, req_url = base_url (self s) @ p, req_json = j,
               req_params = None,
               req_headers = bearer_headers (decrypt_api_key E (api_key r)),
               req_timeout = 300\<rparr>"
    and "s2 = s\<lparr>lookups := lookups s @ [u], decrypts := decrypts s @ [api_key r],
                sent := sent s @ [rq]\<rparr>"
  shows "anext E (proxy_stream_request u m p j) s =
     (case client_stream E rq of
        None \<Rightarrow> (Raise TransportError, Finished, s2)
      | Some resp \<Rightarrow>
          if is_success (stream_status resp)
          then resume (stream_decoder resp) [] (stream_chunks resp) (stream_final resp)
                 (open_stream s2)
          else (Raise (HTTPStatusError (stream_status resp) None), Finished, s2))"
  using assms(3,4)
  by (simp add: proxy_stream_request_def key_active[OF assms(1,2)] Let_def close_open_stream
      split: option.splits)

lemma consume_step:
  "consume E g s =
     (case anext E g s of
        (Yield c, g', s') \<Rightarrow> (case consume E g' s' of (chunks, r) \<Rightarrow> (c # chunks, r))
      | (StopAsyncIteration, g', s') \<Rightarrow> ([], StopAsyncIteration, g', s')
      | (Raise e, g', s') \<Rightarrow> ([], Raise e, g', s'))"
  by (subst consume.simps) (simp split: prod.splits outcome.splits)

lemma consume_flushed:
  "consume E Flushed s = ([], StopAsyncIteration, Finished, close_stream s)"
  by (subst consume_step) simp

lemma consume_suspended_Cons:
  "consume E (Suspended D fed (raw # rest) fin) s =
     (if raw = [] then consume E (Suspended D fed rest fin) (read_chunk s)
      else if dec_decode D fed raw = []
        then consume E (Suspended D (fed @ [raw]) rest fin) (read_chunk s)
        else (case consume E (Suspended D (fed @ [raw]) rest fin) (read_chunk s) of
                (chunks, r) \<Rightarrow> (dec_decode D fed raw # chunks, r)))"
  by (simp add: consume_step[of E "Suspended D fed (raw # rest) fin"]
      consume_step[of E "Suspended D fed rest fin"]
      consume_step[of E "Suspended D (fed @ [raw]) rest fin"])

lemma consume_suspended:
  "consume E (Suspended D fed rest fin) s =
     (decoded D fed rest @ (case fin of EndOfStream \<Rightarrow> flushed D fed rest | ReadError \<Rightarrow> []),
      (case fin of EndOfStream \<Rightarrow> StopAsyncIteration | ReadError \<Rightarrow> Raise TransportError),
      Finished, close_stream (s\<lparr>chunks_read := chunks_read s + length rest\<rparr>))"
proof (induction rest arbitrary: fed s)
  case Nil
  show ?case
    by (subst consume_step) (cases fin; simp add: flushed_def consume_flushed)
next
  case (Cons raw rest)
  have skip: "consume E (Suspended D fed' rest fin) (read_chunk s) =
      (decoded D fed' rest @
         (case fin of EndOfStream \<Rightarrow> flushed D fed' rest | ReadError \<Rightarrow> []),
       (case fin of EndOfStream \<Rightarrow> StopAsyncIteration | ReadError \<Rightarrow> Raise TransportError),
       Finished, close_stream (s\<lparr>chunks_read := chunks_read s + length (raw # rest)\<rparr>))"
    for fed'
    by (simp add: Cons.IH read_chunk_def close_stream_def)
  have fl: "raw \<noteq> [] \<Longrightarrow> flushed D (fed @ [raw]) rest = flushed D fed (raw # rest)"
    "raw = [] \<Longrightarrow> flushed D fed rest = flushed D fed (raw # rest)"
    by (simp_all add: flushed_def)
  show ?case
    by (cases "raw = []"; cases "dec_decode D fed raw = []")
      (simp_all add: consume_suspended_Cons skip fl del: length_Cons
        split: stream_end.splits)
qed

lemma identity_decode [simp]: "dec_decode identity_decoder fed raw = raw"
  by (simp add: identity_decoder_def)

lemma identity_flush [simp]: "dec_flush identity_decoder fed = []"
  by (simp add: identity_decoder_def)




lemma consume_stream_relaying:
  "consume_stream E (Relaying g) s =
     (case consume E g s of (chunks, fin, g', s') \<Rightarrow> (chunks, fin, Exhausted, s'))"
proof (induction E g s rule: consume.induct)
  case (1 E g s)
  obtain out g' s' where step: "anext E g s = (out, g', s')"
    by (cases "anext E g s") auto
  show ?case
  proof (cases out)
    case (Yield c)
    with step 1[of "Yield c" "(g', s')" c g' s'] show ?thesis
      by (simp add: consume.simps[of E g s] consume_stream.simps[of E "Relaying g" s]
          split: prod.splits)
  next
    case StopAsyncIteration
    with step show ?thesis
      by (simp add: consume.simps[of E g s] consume_stream.simps[of E "Relaying g" s])
  next
    case (Raise e)
    with step show ?thesis
      by (simp add: consume.simps[of E g s] consume_stream.simps[of E "Relaying g" s])
  qed
qed

lemma consume_stream_unstarted:
  "consume_stream E (chat_completions_stream u d) s =
     (case consume E (proxy_stream_request u ''POST'' ''/v1/kiro/chat/completions'' (Some d)) s
      of (chunks, fin, g', s') \<Rightarrow> (chunks, fin, Exhausted, s'))"
proof -
  let ?g = "proxy_stream_request u ''POST'' ''/v1/kiro/chat/completions'' (Some d)"
  obtain out g' s' where step: "anext E ?g s = (out, g', s')"
    by (cases "anext E ?g s") auto
  show ?thesis
  proof (cases out)
    case (Yield c)
    with step show ?thesis
      by (simp add: chat_completions_stream_def consume.simps[of E ?g s]
          consume_stream.simps[of E "Unstarted u d" s] consume_stream_relaying
          split: prod.splits)
  next
    case StopAsyncIteration
    with step show ?thesis
      by (simp add: chat_completions_stream_def consume.simps[of E ?g s]
          consume_stream.simps[of E "Unstarted u d" s])
  next
    case (Raise e)
    with step show ?thesis
      by (simp add: chat_completions_stream_def consume.simps[of E ?g s]
          consume_stream.simps[of E "Unstarted u d" s])
  qed
qed

lemma consume_active:
  assumes "get_by_user_id E (plugin_api_key_repo (self s)) u = Some r" and "is_active r"
    and "rq = \<lparr>req_method = m, req_url = base_url (self s) @ p, req_json = j,
               req_params = None,
               req_headers = bearer_headers (decrypt_api_key E (api_key r)),
               req_timeout = 300\<rparr>"
    and "s2 = s\<lparr>lookups := lookups s @ [u], decrypts := decrypts s @ [api_key r],
                sent := sent s @ [rq]\<rparr>"
  shows "consume E (proxy_stream_request u m p j) s =
     (case client_stream E rq of
        None \<Rightarrow> ([], Raise TransportError, Finished, s2)
      | Some resp \<Rightarrow>
          if is_success (stream_status resp)
          then (aiter_bytes (stream_decoder resp) (stream_chunks resp) (stream_final resp),
                (case stream_final resp of
                   EndOfStream \<Rightarrow> StopAsyncIteration | ReadError \<Rightarrow> Raise TransportError),
                Finished, s2\<lparr>chunks_read := chunks_read s + length (stream_chunks resp)\<rparr>)
          else ([], Raise (HTTPStatusError (stream_status resp) None), Finished, s2))"
proof (cases "client_stream E rq")
  case None
  then show ?thesis
    by (simp add: consume_step[of E "proxy_stream_request u m p j" s] anext_active[OF assms])
next
  case (Some resp)
  show ?thesis
  proof (cases "is_success (stream_status resp)")
    case False
    with Some show ?thesis
      by (simp add: consume_step[of E "proxy_stream_request u m p j" s] anext_active[OF assms])
  next
    case True
    with Some have "consume E (proxy_stream_request u m p j) s =
        consume E (Suspended (stream_decoder resp) [] (stream_chunks resp) (stream_final resp))
          (open_stream s2)"
      by (simp add: consume_step[of E "proxy_stream_request u m p j" s]
          consume_step[of E "Suspended (stream_decoder resp) [] (stream_chunks resp)
            (stream_final resp)"]
          anext_active[OF assms])
    with Some True assms(4) show ?thesis
      by (simp add: consume_suspended aiter_bytes_def open_stream_def close_stream_def)
  qed
qed

lemma resume_identity:
  "raw \<noteq> [] \<Longrightarrow>
   resume identity_decoder fed (raw # rest) fin s =
     (Yield raw, Suspended identity_decoder (fed @ [raw]) rest fin, read_chunk s)"
  by simp



section \<open>What a call leaves alone\<close>

text \<open>What token resolution leaves alone.\<close>

lemma key_frame:
  "get_user_plugin_key E u s = (res, s1) \<Longrightarrow>
   self s1 = self s \<and> sent s1 = sent s \<and> open_streams s1 = open_streams s \<and>
   lookups s1 = lookups s @ [u] \<and>
   decrypts s1 = decrypts s @
     (case get_by_user_id E (plugin_api_key_repo (self s)) u of
        None \<Rightarrow> [] | Some r \<Rightarrow> if is_active r then [api_key r] else [])"
  by (auto simp: get_user_plugin_key_def Let_def split: option.splits if_splits)

lemma proxy_request_frame:
  "proxy_request E u m p j q s = (res, s') \<Longrightarrow>
   self s' = self s \<and> open_streams s' = open_streams s \<and> lookups s' = lookups s @ [u] \<and>
   decrypts s' = decrypts s @
     (case get_by_user_id E (plugin_api_key_repo (self s)) u of
        None \<Rightarrow> [] | Some r \<Rightarrow> if is_active r then [api_key r] else [])"
proof -
  assume call: "proxy_request E u m p j q s = (res, s')"
  obtain k s1 where key: "get_user_plugin_key E u s = (k, s1)"
    by (cases "get_user_plugin_key E u s") auto
  from call key have "self s' = self s1 \<and> open_streams s' = open_streams s1 \<and>
      lookups s' = lookups s1 \<and> decrypts s' = decrypts s1"
    by (cases k)
      (auto simp: proxy_request_def Let_def split: option.splits sum.splits)
  with key_frame[OF key] show ?thesis by simp
qed

lemma invoke_is_proxy_request:
  "\<exists>m p j q. invoke E u c = proxy_request E u m p j q"
  by (cases c)
    (auto simp: get_oauth_authorize_url_def get_oauth_status_def create_account_def
      get_accounts_def get_account_def update_account_status_def update_account_name_def
      get_account_balance_def get_account_consumption_def get_user_consumption_stats_def
      delete_account_def get_models_def chat_completions_def)

lemma invoke_frame:
  "self (snd (invoke E u c s)) = self s \<and>
   open_streams (snd (invoke E u c s)) = open_streams s \<and>
   lookups (snd (invoke E u c s)) = lookups s @ [u] \<and>
   decrypts (snd (invoke E u c s)) = decrypts s @
     (case get_by_user_id E (plugin_api_key_repo (self s)) u of
        None \<Rightarrow> [] | Some r \<Rightarrow> if is_active r then [api_key r] else [])"
proof -
  obtain m p j q where "invoke E u c = proxy_request E u m p j q"
    using invoke_is_proxy_request by blast
  then show ?thesis
    using proxy_request_frame[of E u m p j q s "fst (proxy_request E u m p j q s)"
        "snd (proxy_request E u m p j q s)"]
    by simp
qed

lemma resume_frame:
  "resume D fed rest fin s = (out, g, s') \<Longrightarrow>
   self s' = self s \<and> lookups s' = lookups s \<and> decrypts s' = decrypts s \<and>
   sent s' = sent s \<and> open_streams s' - held g = open_streams s - 1"
proof (induction D fed rest fin s rule: resume.induct)
  case (1 D fed raw rest fin s)
  then show ?case by (auto simp: read_chunk_def split: if_splits)
next
  case (2 D fed s)
  then show ?case by (auto simp: close_stream_def split: if_splits)
next
  case (3 D fed s)
  then show ?case by (auto simp: close_stream_def)
qed

lemma anext_frame:
  assumes "anext E g s = (out, g', s')"
  shows "self s' = self s \<and> open_streams s' - held g' = open_streams s - held g"
proof (cases g)
  case (Created u m p j)
  obtain k s1 where key: "get_user_plugin_key E u s = (k, s1)"
    by (cases "get_user_plugin_key E u s") auto
  note kf = key_frame[OF key]
  show ?thesis
  proof (cases k)
    case (Inl e)
    with assms Created key kf show ?thesis by auto
  next
    case (Inr tok)
    let ?rq = "\<lparr>req_method = m, req_url = base_url (self s1) @ p, req_json = j,
                 req_params = None, req_headers = bearer_headers tok, req_timeout = 300\<rparr>"
    show ?thesis
    proof (cases "client_stream E ?rq")
      case None
      with assms Created key Inr kf show ?thesis by (auto simp: Let_def)
    next
      case (Some resp)
      show ?thesis
      proof (cases "is_success (stream_status resp)")
        case True
        with assms Created key Inr Some have
          "resume (stream_decoder resp) [] (stream_chunks resp) (stream_final resp)
             (open_stream (s1\<lparr>sent := sent s1 @ [?rq]\<rparr>)) = (out, g', s')"
          by (simp add: Let_def)
        from resume_frame[OF this] kf Created show ?thesis
          by (simp add: open_stream_def)
      next
        case False
        with assms Created key Inr Some kf show ?thesis
          by (auto simp: Let_def close_open_stream)
      qed
    qed
  qed
next
  case (Suspended D fed rest fin)
  with assms resume_frame[of D fed rest fin s out g' s'] show ?thesis by simp
next
  case Flushed
  with assms show ?thesis by (auto simp: close_stream_def)
next
  case Finished
  with assms show ?thesis by auto
qed

lemma aclose_frame:
  "aclose g s = (g', s') \<Longrightarrow>
   g' = Finished \<and> self s' = self s \<and> open_streams s' = open_streams s - held g"
  by (cases g) (auto simp: close_stream_def)

lemma resume_ends:
  "resume D fed rest fin s = (out, g, s') \<Longrightarrow> (\<exists>c. out = Yield c) \<or> g = Finished"
proof (induction D fed rest fin s rule: resume.induct)
  case (1 D fed raw rest fin s)
  then show ?case by (auto split: if_splits)
next
  case (2 D fed s)
  then show ?case by (auto split: if_splits)
next
  case (3 D fed s)
  then show ?case by simp
qed

lemma anext_ends:
  "anext E g s = (out, g', s') \<Longrightarrow> (\<exists>c. out = Yield c) \<or> g' = Finished"
  by (cases g)
    (auto simp: Let_def split: prod.splits sum.splits option.splits if_splits
      dest: resume_ends)

lemma consume_frame:
  "consume E g s = (chunks, fin, g', s') \<Longrightarrow>
   g' = Finished \<and> self s' = self s \<and> open_streams s' = open_streams s - held g"
proof (induction E g s arbitrary: chunks fin g' s' rule: consume.induct)
  case (1 E g s)
  obtain out g1 s1 where step: "anext E g s = (out, g1, s1)"
    by (cases "anext E g s") auto
  note af = anext_frame[OF step]
  show ?case
  proof (cases out)
    case (Yield c)
    obtain chunks1 fin1 g2 s2 where rest: "consume E g1 s1 = (chunks1, fin1, g2, s2)"
      by (cases "consume E g1 s1") auto
    from "1.IH"[of "Yield c" "(g1, s1)" c g1 s1, OF _ _ _ rest] step Yield
    have "g2 = Finished \<and> self s2 = self s1 \<and> open_streams s2 = open_streams s1 - held g1"
      by simp
    moreover from "1.prems" step Yield rest have "g' = g2 \<and> s' = s2"
      by (simp add: consume_step[of E g s])
    ultimately show ?thesis using af by simp
  next
    case StopAsyncIteration
    with "1.prems" step have "g' = g1 \<and> s' = s1" by (simp add: consume_step[of E g s])
    moreover from anext_ends[OF step] StopAsyncIteration have "g1 = Finished" by simp
    ultimately show ?thesis using af by simp
  next
    case (Raise e)
    with "1.prems" step have "g' = g1 \<and> s' = s1" by (simp add: consume_step[of E g s])
    moreover from anext_ends[OF step] Raise have "g1 = Finished" by simp
    ultimately show ?thesis using af by simp
  qed
qed




lemma anext_created_lookups:
  assumes "anext E (proxy_stream_request u m p j) s = (out, g', s')"
  shows "lookups s' = lookups s @ [u] \<and>
     decrypts s' = decrypts s @
       (case get_by_user_id E (plugin_api_key_repo (self s)) u of
          None \<Rightarrow> [] | Some r \<Rightarrow> if is_active r then [api_key r] else [])"
proof -
  obtain k s1 where key: "get_user_plugin_key E u s = (k, s1)"
    by (cases "get_user_plugin_key E u s") auto
  note kf = key_frame[OF key]
  show ?thesis
  proof (cases k)
    case (Inl e)
    with assms key kf show ?thesis by (auto simp: proxy_stream_request_def)
  next
    case (Inr tok)
    let ?rq = "\<lparr>req_method = m, req_url = base_url (self s1) @ p, req_json = j,
                 req_params = None, req_headers = bearer_headers tok, req_timeout = 300\<rparr>"
    show ?thesis
    proof (cases "client_stream E ?rq")
      case None
      with assms key Inr kf show ?thesis by (auto simp: proxy_stream_request_def Let_def)
    next
      case (Some resp)
      show ?thesis
      proof (cases "is_success (stream_status resp)")
        case True
        with assms key Inr Some have
          "resume (stream_decoder resp) [] (stream_chunks resp) (stream_final resp)
             (open_stream (s1\<lparr>sent := sent s1 @ [?rq]\<rparr>)) = (out, g', s')"
          by (simp add: proxy_stream_request_def Let_def)
        from resume_frame[OF this] kf show ?thesis
          by (simp add: open_stream_def)
      next
        case False
        with assms key Inr Some kf show ?thesis
          by (auto simp: proxy_stream_request_def Let_def close_open_stream)
      qed
    qed
  qed
qed

lemma anext_stream_frame:
  "anext_stream E G s = (out, G', s') \<Longrightarrow> self s' = self s"
proof (cases G)
  case (Unstarted u d)
  assume a: "anext_stream E G s = (out, G', s')"
  let ?g = "proxy_stream_request u ''POST'' ''/v1/kiro/chat/completions'' (Some d)"
  obtain o1 g1 s1 where step: "anext E ?g s = (o1, g1, s1)"
    by (cases "anext E ?g s") auto
  with a Unstarted have "s' = s1" by (cases o1) auto
  with anext_frame[OF step] show ?thesis by simp
next
  case (Relaying g)
  assume a: "anext_stream E G s = (out, G', s')"
  obtain o1 g1 s1 where step: "anext E g s = (o1, g1, s1)"
    by (cases "anext E g s") auto
  with a Relaying have "s' = s1" by (cases o1) auto
  with anext_frame[OF step] show ?thesis by simp
next
  case Exhausted
  assume "anext_stream E G s = (out, G', s')"
  with Exhausted show ?thesis by auto
qed

lemma consume_stream_frame:
  "self (snd (snd (snd (consume_stream E G s)))) = self s"
proof (cases G)
  case (Unstarted u d)
  let ?g = "proxy_stream_request u ''POST'' ''/v1/kiro/chat/completions'' (Some d)"
  obtain cs fin g' s' where c: "consume E ?g s = (cs, fin, g', s')"
    by (cases "consume E ?g s") auto
  from consume_frame[OF c] c Unstarted show ?thesis
    using consume_stream_unstarted[of E u d s] by (simp add: chat_completions_stream_def)
next
  case (Relaying g)
  obtain cs fin g' s' where c: "consume E g s = (cs, fin, g', s')"
    by (cases "consume E g s") auto
  from consume_frame[OF c] c Relaying show ?thesis
    by (simp add: consume_stream_relaying)
next
  case Exhausted
  then show ?thesis by (simp add: consume_stream.simps[of E Exhausted s])
qed

section \<open>Properties\<close>

subsection \<open>No active credential\<close>

text \<open>
  Claim C1. When the store has no record for the user, or a record that is not active,
  the single-response proxy, each of the thirteen operations built on it, the streaming
  proxy and the streaming chat completion all fail with the same \<^verbatim>\<open>ValueError\<close>
  (the specification's NotConfiguredError). The only effect is the store lookup: no
  request has been handed to the HTTP client and no stream has been opened. A consumer of
  the streams observes no chunk before the error.
\<close>

theorem not_configured_before_any_call:
  assumes "get_by_user_id E (plugin_api_key_repo (self s)) u = None \<or>
           (\<exists>r. get_by_user_id E (plugin_api_key_repo (self s)) u = Some r \<and> \<not> is_active r)"
  defines "failure \<equiv> ValueError not_configured_message"
  defines "s1 \<equiv> s\<lparr>lookups := lookups s @ [u]\<rparr>"
  shows "proxy_request E u m p j q s = (Inl failure, s1) \<and>
         invoke E u c s = (Inl failure, s1) \<and>
         anext E (proxy_stream_request u m p j) s = (Raise failure, Finished, s1) \<and>
         consume E (proxy_stream_request u m p j) s = ([], Raise failure, Finished, s1) \<and>
         anext_stream E (chat_completions_stream u d) s = (Raise failure, Exhausted, s1) \<and>
         consume_stream E (chat_completions_stream u d) s = ([], Raise failure, Exhausted, s1) \<and>
         sent s1 = sent s \<and> open_streams s1 = open_streams s"
proof -
  have key: "get_user_plugin_key E u s = (Inl failure, s1)"
    using assms(1) unfolding failure_def s1_def
    by (auto simp: key_missing key_inactive)
  have a: "anext E (proxy_stream_request u m p j) s = (Raise failure, Finished, s1)"
    by (rule anext_not_configured[OF key])
  have b: "anext_stream E (chat_completions_stream u d) s = (Raise failure, Exhausted, s1)"
    by (simp add: chat_completions_stream_def anext_not_configured[OF key])
  show ?thesis
    using proxy_request_not_configured[OF key] invoke_not_configured[OF key] a b
      consume_raise[OF a] consume_stream_raise[OF b]
    by (simp add: s1_def)
qed

theorem not_configured_before_any_call_witness:
  "invoke (demo_env None None) 3 Get_accounts demo_state =
     (Inl (ValueError not_configured_message), demo_state\<lparr>lookups := [3]\<rparr>) \<and>
   invoke (demo_env None None) 2 Get_accounts demo_state =
     (Inl (ValueError not_configured_message), demo_state\<lparr>lookups := [2]\<rparr>) \<and>
   consume_stream (demo_env None None) (chat_completions_stream 2 (JObj [])) demo_state =
     ([], Raise (ValueError not_configured_message), Exhausted, demo_state\<lparr>lookups := [2]\<rparr>) \<and>
   sent (snd (invoke (demo_env None None) 2 Get_accounts demo_state)) = []"
  using not_configured_before_any_call[of "demo_env None None" demo_state 3 _ _ _ _ Get_accounts]
    not_configured_before_any_call[of "demo_env None None" demo_state 2 _ _ _ _ Get_accounts "JObj []"]
  by (simp add: demo_env_def demo_store_def demo_state_def)

subsection \<open>Optional query parameters\<close>

lemma consumption_params_eq:
  "consumption_params limit offset start_date end_date =
     (case limit of None \<Rightarrow> [] | Some n \<Rightarrow> [(''limit'', JInt n)]) @
     (case offset of None \<Rightarrow> [] | Some n \<Rightarrow> [(''offset'', JInt n)]) @
     (case start_date of None \<Rightarrow> []
      | Some d \<Rightarrow> if d = [] then [] else [(''start_date'', JStr d)]) @
     (case end_date of None \<Rightarrow> []
      | Some d \<Rightarrow> if d = [] then [] else [(''end_date'', JStr d)])"
  by (cases limit; cases offset; cases start_date; cases end_date;
      simp add: consumption_params_def)

lemma stats_params_eq:
  "stats_params start_date end_date =
     (case start_date of None \<Rightarrow> []
      | Some d \<Rightarrow> if d = [] then [] else [(''start_date'', JStr d)]) @
     (case end_date of None \<Rightarrow> []
      | Some d \<Rightarrow> if d = [] then [] else [(''end_date'', JStr d)])"
  by (cases start_date; cases end_date; simp add: stats_params_def)

lemma consumption_params_keys:
  "map fst (consumption_params limit offset start_date end_date) =
     (case limit of None \<Rightarrow> [] | Some n \<Rightarrow> [''limit'']) @
     (case offset of None \<Rightarrow> [] | Some n \<Rightarrow> [''offset'']) @
     (case start_date of None \<Rightarrow> [] | Some d \<Rightarrow> if d = [] then [] else [''start_date'']) @
     (case end_date of None \<Rightarrow> [] | Some d \<Rightarrow> if d = [] then [] else [''end_date''])"
  by (simp add: consumption_params_eq split: option.splits)

lemma consumption_params_values:
  "map snd (consumption_params limit offset start_date end_date) =
     (case limit of None \<Rightarrow> [] | Some n \<Rightarrow> [JInt n]) @
     (case offset of None \<Rightarrow> [] | Some n \<Rightarrow> [JInt n]) @
     (case start_date of None \<Rightarrow> [] | Some d \<Rightarrow> if d = [] then [] else [JStr d]) @
     (case end_date of None \<Rightarrow> [] | Some d \<Rightarrow> if d = [] then [] else [JStr d])"
  by (simp add: consumption_params_eq split: option.splits)

lemma stats_params_keys:
  "map fst (stats_params start_date end_date) =
     (case start_date of None \<Rightarrow> [] | Some d \<Rightarrow> if d = [] then [] else [''start_date'']) @
     (case end_date of None \<Rightarrow> [] | Some d \<Rightarrow> if d = [] then [] else [''end_date''])"
  by (simp add: stats_params_eq split: option.splits)

lemma stats_params_values:
  "map snd (stats_params start_date end_date) =
     (case start_date of None \<Rightarrow> [] | Some d \<Rightarrow> if d = [] then [] else [JStr d]) @
     (case end_date of None \<Rightarrow> [] | Some d \<Rightarrow> if d = [] then [] else [JStr d])"
  by (simp add: stats_params_eq split: option.splits)

lemma proxy_request_active:
  assumes "get_by_user_id E (plugin_api_key_repo (self s)) u = Some r" and "is_active r"
  shows "proxy_request E u m p j q s =
     (let rq = \<lparr>req_method = m, req_url = base_url (self s) @ p, req_json = j, req_params = q,
                req_headers = bearer_headers (decrypt_api_key E (api_key r)),
                req_timeout = 300\<rparr>
      in (case client_request E rq of
            None \<Rightarrow> Inl TransportError
          | Some resp \<Rightarrow>
              if is_success (status_code resp)
              then (case response_json E (content resp) of
                      None \<Rightarrow> Inl JSONDecodeError | Some doc \<Rightarrow> Inr doc)
              else Inl (HTTPStatusError (status_code resp) (Some (content resp))),
          s\<lparr>lookups := lookups s @ [u], decrypts := decrypts s @ [api_key r],
            sent := sent s @ [rq]\<rparr>))"
  by (simp add: proxy_request_def key_active[OF assms] Let_def raise_for_status_def
      split: option.splits)

text \<open>
  Claim C2. For a user with an active key, the consumption list and the consumption
  statistics send exactly one request, whose query dictionary is the one built from the
  arguments. An argument left unset (\<open>None\<close>) contributes no key, and no value of the
  dictionary is null or an empty string. With only \<open>limit = 10\<close> the dictionary is
  exactly the pair \<open>limit = 10\<close>.
\<close>

theorem unset_query_parameters_omitted:
  assumes "get_by_user_id E (plugin_api_key_repo (self s)) u = Some r" and "is_active r"
  defines "hs \<equiv> bearer_headers (decrypt_api_key E (api_key r))"
  shows
    "sent (snd (get_account_consumption E u a limit offset start_date end_date s)) =
       sent s @
       [\<lparr>req_method = ''GET'',
         req_url = base_url (self s) @ ''/api/kiro/accounts/'' @ a @ ''/consumption'',
         req_json = None,
         req_params = Some (consumption_params limit offset start_date end_date),
         req_headers = hs, req_timeout = 300\<rparr>] \<and>
     sent (snd (get_user_consumption_stats E u start_date end_date s)) =
       sent s @
       [\<lparr>req_method = ''GET'', req_url = base_url (self s) @ ''/api/kiro/consumption/stats'',
         req_json = None, req_params = Some (stats_params start_date end_date),
         req_headers = hs, req_timeout = 300\<rparr>] \<and>
     (limit = None \<longrightarrow>
        ''limit'' \<notin> fst ` set (consumption_params limit offset start_date end_date)) \<and>
     (offset = None \<longrightarrow>
        ''offset'' \<notin> fst ` set (consumption_params limit offset start_date end_date)) \<and>
     (start_date = None \<longrightarrow>
        ''start_date'' \<notin> fst ` set (consumption_params limit offset start_date end_date) \<and>
        ''start_date'' \<notin> fst ` set (stats_params start_date end_date)) \<and>
     (end_date = None \<longrightarrow>
        ''end_date'' \<notin> fst ` set (consumption_params limit offset start_date end_date) \<and>
        ''end_date'' \<notin> fst ` set (stats_params start_date end_date)) \<and>
     JNull \<notin> snd ` set (consumption_params limit offset start_date end_date) \<and>
     JStr [] \<notin> snd ` set (consumption_params limit offset start_date end_date) \<and>
     JNull \<notin> snd ` set (stats_params start_date end_date) \<and>
     JStr [] \<notin> snd ` set (stats_params start_date end_date) \<and>
     consumption_params (Some 10) None None None = [(''limit'', JInt 10)]"
proof -
  have keys:
    "fst ` set (consumption_params limit offset start_date end_date) =
       set (map fst (consumption_params limit offset start_date end_date))"
    "fst ` set (stats_params start_date end_date) =
       set (map fst (stats_params start_date end_date))"
    by simp_all
  have vals:
    "snd ` set (consumption_params limit offset start_date end_date) =
       set (map snd (consumption_params limit offset start_date end_date))"
    "snd ` set (stats_params start_date end_date) =
       set (map snd (stats_params start_date end_date))"
    by simp_all
  have sent1:
    "sent (snd (get_account_consumption E u a limit offset start_date end_date s)) =
       sent s @
       [\<lparr>req_method = ''GET'',
         req_url = base_url (self s) @ ''/api/kiro/accounts/'' @ a @ ''/consumption'',
         req_json = None,
         req_params = Some (consumption_params limit offset start_date end_date),
         req_headers = hs, req_timeout = 300\<rparr>]"
    by (simp add: get_account_consumption_def proxy_request_active[OF assms(1,2)] Let_def
        hs_def)
  have sent2:
    "sent (snd (get_user_consumption_stats E u start_date end_date s)) =
       sent s @
       [\<lparr>req_method = ''GET'', req_url = base_url (self s) @ ''/api/kiro/consumption/stats'',
         req_json = None, req_params = Some (stats_params start_date end_date),
         req_headers = hs, req_timeout = 300\<rparr>]"
    by (simp add: get_user_consumption_stats_def proxy_request_active[OF assms(1,2)] Let_def
        hs_def)
  have k:
    "(limit = None \<longrightarrow>
        ''limit'' \<notin> fst ` set (consumption_params limit offset start_date end_date)) \<and>
     (offset = None \<longrightarrow>
        ''offset'' \<notin> fst ` set (consumption_params limit offset start_date end_date)) \<and>
     (start_date = None \<longrightarrow>
        ''start_date'' \<notin> fst ` set (consumption_params limit offset start_date end_date) \<and>
        ''start_date'' \<notin> fst ` set (stats_params start_date end_date)) \<and>
     (end_date = None \<longrightarrow>
        ''end_date'' \<notin> fst ` set (consumption_params limit offset start_date end_date) \<and>
        ''end_date'' \<notin> fst ` set (stats_params start_date end_date))"
    unfolding keys consumption_params_keys stats_params_keys
    by (simp split: option.splits)
  have v:
    "JNull \<notin> snd ` set (consumption_params limit offset start_date end_date) \<and>
     JStr [] \<notin> snd ` set (consumption_params limit offset start_date end_date) \<and>
     JNull \<notin> snd ` set (stats_params start_date end_date) \<and>
     JStr [] \<notin> snd ` set (stats_params start_date end_date)"
    unfolding vals consumption_params_values stats_params_values
    by (simp split: option.splits)
  have ex: "consumption_params (Some 10) None None None = [(''limit'', JInt 10)]"
    by (simp add: consumption_params_def)
  from sent1 sent2 k v ex show ?thesis by blast
qed

theorem unset_query_parameters_omitted_witness:
  "sent (snd (get_account_consumption (demo_env None None) 1 ''acc'' (Some 10) None None None
       demo_state)) =
     [\<lparr>req_method = ''GET'', req_url = ''http://plugin/api/kiro/accounts/acc/consumption'',
       req_json = None, req_params = Some [(''limit'', JInt 10)],
       req_headers = [(''Authorization'', ''Bearer alice'')], req_timeout = 300\<rparr>] \<and>
   sent (snd (get_user_consumption_stats (demo_env None None) 1 None None demo_state)) =
     [\<lparr>req_method = ''GET'', req_url = ''http://plugin/api/kiro/consumption/stats'',
       req_json = None, req_params = Some [],
       req_headers = [(''Authorization'', ''Bearer alice'')], req_timeout = 300\<rparr>]"
  using unset_query_parameters_omitted[of "demo_env None None" demo_state 1
      "\<lparr>api_key = ''enc:alice'', is_active = True\<rparr>" "''acc''" "Some 10" None None None]
  by (simp add: demo_env_def demo_store_def demo_state_def init_def bearer_headers_def
      stats_params_def)

text \<open>
  Claim C10. \<open>limit\<close> and \<open>offset\<close> are sent whenever they are not \<open>None\<close>, also when
  they are 0. \<open>start_date\<close> and \<open>end_date\<close> are sent only when they are neither \<open>None\<close>
  nor the empty string: an empty string gives the same dictionary as \<open>None\<close>.
\<close>

theorem optional_parameter_asymmetry:
  "(''limit'' \<in> fst ` set (consumption_params limit offset start_date end_date) \<longleftrightarrow>
      limit \<noteq> None) \<and>
   (''offset'' \<in> fst ` set (consumption_params limit offset start_date end_date) \<longleftrightarrow>
      offset \<noteq> None) \<and>
   (''start_date'' \<in> fst ` set (consumption_params limit offset start_date end_date) \<longleftrightarrow>
      start_date \<noteq> None \<and> start_date \<noteq> Some []) \<and>
   (''end_date'' \<in> fst ` set (consumption_params limit offset start_date end_date) \<longleftrightarrow>
      end_date \<noteq> None \<and> end_date \<noteq> Some []) \<and>
   (''start_date'' \<in> fst ` set (stats_params start_date end_date) \<longleftrightarrow>
      start_date \<noteq> None \<and> start_date \<noteq> Some []) \<and>
   (''end_date'' \<in> fst ` set (stats_params start_date end_date) \<longleftrightarrow>
      end_date \<noteq> None \<and> end_date \<noteq> Some []) \<and>
   (''limit'', JInt n) \<in> set (consumption_params (Some n) offset start_date end_date) \<and>
   (''offset'', JInt n) \<in> set (consumption_params limit (Some n) start_date end_date) \<and>
   consumption_params limit offset (Some []) end_date =
     consumption_params limit offset None end_date \<and>
   consumption_params limit offset start_date (Some []) =
     consumption_params limit offset start_date None \<and>
   stats_params (Some []) end_date = stats_params None end_date \<and>
   stats_params start_date (Some []) = stats_params start_date None"
proof -
  have keys: "fst ` set (consumption_params limit offset start_date end_date) =
      set (map fst (consumption_params limit offset start_date end_date))"
    "fst ` set (stats_params start_date end_date) = set (map fst (stats_params start_date end_date))"
    by simp_all
  have k: "(''limit'' \<in> fst ` set (consumption_params limit offset start_date end_date) \<longleftrightarrow>
      limit \<noteq> None) \<and>
   (''offset'' \<in> fst ` set (consumption_params limit offset start_date end_date) \<longleftrightarrow>
      offset \<noteq> None) \<and>
   (''start_date'' \<in> fst ` set (consumption_params limit offset start_date end_date) \<longleftrightarrow>
      start_date \<noteq> None \<and> start_date \<noteq> Some []) \<and>
   (''end_date'' \<in> fst ` set (consumption_params limit offset start_date end_date) \<longleftrightarrow>
      end_date \<noteq> None \<and> end_date \<noteq> Some []) \<and>
   (''start_date'' \<in> fst ` set (stats_params start_date end_date) \<longleftrightarrow>
      start_date \<noteq> None \<and> start_date \<noteq> Some []) \<and>
   (''end_date'' \<in> fst ` set (stats_params start_date end_date) \<longleftrightarrow>
      end_date \<noteq> None \<and> end_date \<noteq> Some [])"
    unfolding keys consumption_params_keys stats_params_keys
    by (cases limit; cases offset; cases start_date; cases end_date; simp)
  have z: "(''limit'', JInt n) \<in> set (consumption_params (Some n) offset start_date end_date) \<and>
   (''offset'', JInt n) \<in> set (consumption_params limit (Some n) start_date end_date)"
    by (simp add: consumption_params_eq)
  have e: "consumption_params limit offset (Some []) end_date =
     consumption_params limit offset None end_date \<and>
   consumption_params limit offset start_date (Some []) =
     consumption_params limit offset start_date None \<and>
   stats_params (Some []) end_date = stats_params None end_date \<and>
   stats_params start_date (Some []) = stats_params start_date None"
    by (simp add: consumption_params_eq stats_params_eq)
  from k z e show ?thesis by blast
qed

theorem optional_parameter_asymmetry_witness:
  "consumption_params (Some 0) (Some 0) (Some []) (Some []) =
     [(''limit'', JInt 0), (''offset'', JInt 0)] \<and>
   ''start_date'' \<notin> fst ` set (consumption_params (Some 0) (Some 0) (Some []) (Some [])) \<and>
   ''limit'' \<in> fst ` set (consumption_params (Some 0) (Some 0) (Some []) (Some [])) \<and>
   stats_params (Some []) (Some ''2024-01-31'') = [(''end_date'', JStr ''2024-01-31'')]"
  using optional_parameter_asymmetry[of "Some 0" "Some 0" "Some []" "Some []" 0]
  by (simp add: consumption_params_def stats_params_def)

subsection \<open>Upstream status and the relayed document\<close>

text \<open>
  Claim C4. For a user with an active key, the single-response proxy sends one request
  and no second one. When the upstream answers it with a status outside 200..299, the
  call fails with \<^verbatim>\<open>HTTPStatusError\<close> (the specification's UpstreamError)
  carrying that status and that body. When the status is a success, the result is the
  document the body parses to. \<^verbatim>\<open>get_account\<close> is such a call.
\<close>

theorem upstream_status_decides:
  assumes "get_by_user_id E (plugin_api_key_repo (self s)) u = Some r" and "is_active r"
    and "rq = \<lparr>req_method = m, req_url = base_url (self s) @ p, req_json = j, req_params = q,
               req_headers = bearer_headers (decrypt_api_key E (api_key r)),
               req_timeout = 300\<rparr>"
    and "client_request E rq = Some resp"
  defines "s2 \<equiv> s\<lparr>lookups := lookups s @ [u], decrypts := decrypts s @ [api_key r],
                  sent := sent s @ [rq]\<rparr>"
  shows
    "(\<not> is_success (status_code resp) \<longrightarrow>
        proxy_request E u m p j q s =
          (Inl (HTTPStatusError (status_code resp) (Some (content resp))), s2)) \<and>
     (is_success (status_code resp) \<longrightarrow>
        proxy_request E u m p j q s =
          (case response_json E (content resp) of
             None \<Rightarrow> Inl JSONDecodeError
           | Some doc \<Rightarrow> Inr doc, s2)) \<and>
     get_account E u a = proxy_request E u ''GET'' (''/api/kiro/accounts/'' @ a) None None"
  using assms(3,4)
  by (simp add: proxy_request_active[OF assms(1,2)] s2_def Let_def get_account_def)

theorem upstream_status_decides_witness:
  "get_account (demo_env (Some \<lparr>status_code = 404, content = ''{\"error\":\"not found\"}''\<rparr>) None)
     1 ''acc'' demo_state =
     (Inl (HTTPStatusError 404 (Some ''{\"error\":\"not found\"}'')),
      demo_state\<lparr>lookups := [1], decrypts := [''enc:alice''],
        sent := [\<lparr>req_method = ''GET'', req_url = ''http://plugin/api/kiro/accounts/acc'',
                 req_json = None, req_params = None,
                 req_headers = [(''Authorization'', ''Bearer alice'')],
                 req_timeout = 300\<rparr>]\<rparr>) \<and>
   fst (get_account (demo_env (Some \<lparr>status_code = 200, content = ''{\"data\":[]}''\<rparr>) None)
     1 ''acc'' demo_state) = Inr (JObj [(''data'', JArr [])])"
  using upstream_status_decides[of
      "demo_env (Some \<lparr>status_code = 404, content = ''{\"error\":\"not found\"}''\<rparr>) None"
      demo_state 1 "\<lparr>api_key = ''enc:alice'', is_active = True\<rparr>" _ "''GET''"
      "''/api/kiro/accounts/acc''" None None
      "\<lparr>status_code = 404, content = ''{\"error\":\"not found\"}''\<rparr>" "''acc''"]
    upstream_status_decides[of
      "demo_env (Some \<lparr>status_code = 200, content = ''{\"data\":[]}''\<rparr>) None"
      demo_state 1 "\<lparr>api_key = ''enc:alice'', is_active = True\<rparr>" _ "''GET''"
      "''/api/kiro/accounts/acc''" None None
      "\<lparr>status_code = 200, content = ''{\"data\":[]}''\<rparr>" "''acc''"]
  by (simp add: demo_env_def demo_store_def demo_state_def init_def bearer_headers_def
      demo_json_def is_success_def)

text \<open>
  Claim C6. The non-streaming chat completion sends one request whose JSON payload is the
  caller's request body, and returns the document of a successful upstream answer as it
  was parsed.
\<close>

theorem chat_completions_round_trip:
  assumes "get_by_user_id E (plugin_api_key_repo (self s)) u = Some r" and "is_active r"
    and "rq = \<lparr>req_method = ''POST'', req_url = base_url (self s) @ ''/v1/kiro/chat/completions'',
               req_json = Some request_data, req_params = None,
               req_headers = bearer_headers (decrypt_api_key E (api_key r)),
               req_timeout = 300\<rparr>"
  shows
    "sent (snd (chat_completions E u request_data s)) = sent s @ [rq] \<and>
     req_json rq = Some request_data \<and>
     (\<forall>resp doc. client_request E rq = Some resp \<and> is_success (status_code resp) \<and>
        response_json E (content resp) = Some doc \<longrightarrow>
        fst (chat_completions E u request_data s) = Inr doc)"
  using assms(3)
  by (simp add: chat_completions_def proxy_request_active[OF assms(1,2)] Let_def)

theorem chat_completions_round_trip_witness:
  "sent (snd (chat_completions
       (demo_env (Some \<lparr>status_code = 200, content = ''{\"data\":[\"m\"]}''\<rparr>) None) 1
       (JObj [(''model'', JStr ''claude-sonnet-4-5''), (''stream'', JBool False)]) demo_state)) =
     [\<lparr>req_method = ''POST'', req_url = ''http://plugin/v1/kiro/chat/completions'',
       req_json = Some (JObj [(''model'', JStr ''claude-sonnet-4-5''), (''stream'', JBool False)]),
       req_params = None, req_headers = [(''Authorization'', ''Bearer alice'')],
       req_timeout = 300\<rparr>] \<and>
   fst (chat_completions
       (demo_env (Some \<lparr>status_code = 200, content = ''{\"data\":[\"m\"]}''\<rparr>) None) 1
       (JObj [(''model'', JStr ''claude-sonnet-4-5''), (''stream'', JBool False)]) demo_state) =
     Inr (JObj [(''data'', JArr [JStr ''m''])])"
  using chat_completions_round_trip[of
      "demo_env (Some \<lparr>status_code = 200, content = ''{\"data\":[\"m\"]}''\<rparr>) None"
      demo_state 1 "\<lparr>api_key = ''enc:alice'', is_active = True\<rparr>" _
      "JObj [(''model'', JStr ''claude-sonnet-4-5''), (''stream'', JBool False)]"]
  by (simp add: demo_env_def demo_store_def demo_state_def init_def bearer_headers_def
      demo_json_def is_success_def)

text \<open>
  Claim C3, as stated: \<^verbatim>\<open>get_models\<close> returns a fixed five-entry catalogue whatever
  the upstream answers. The code does not: for the same user and state, two upstream
  answers give two results, and an upstream failure gives an error.
\<close>

theorem get_models_follows_upstream:
  "fst (get_models (demo_env (Some \<lparr>status_code = 200, content = ''{\"data\":[]}''\<rparr>) None)
         1 demo_state) = Inr (JObj [(''data'', JArr [])]) \<and>
   fst (get_models (demo_env (Some \<lparr>status_code = 200, content = ''{\"data\":[\"m\"]}''\<rparr>) None)
         1 demo_state) = Inr (JObj [(''data'', JArr [JStr ''m''])]) \<and>
   fst (get_models (demo_env (Some \<lparr>status_code = 503, content = []\<rparr>) None) 1 demo_state) =
     Inl (HTTPStatusError 503 (Some [])) \<and>
   fst (get_models (demo_env (Some \<lparr>status_code = 200, content = ''{\"data\":[]}''\<rparr>) None)
         1 demo_state) \<noteq>
   fst (get_models (demo_env (Some \<lparr>status_code = 200, content = ''{\"data\":[\"m\"]}''\<rparr>) None)
         1 demo_state)"
  by (simp add: get_models_def proxy_request_def get_user_plugin_key_def demo_env_def
      demo_store_def demo_state_def demo_json_def raise_for_status_def is_success_def Let_def)

text \<open>
  Claim C3, amended. For a user with an active key, \<^verbatim>\<open>get_models\<close> sends one
  \<^verbatim>\<open>GET\<close> to the models path and returns what the upstream answers: the parsed
  document on a success status, the error otherwise. \<^verbatim>\<open>SUPPORTED_MODELS\<close> is a
  constant list of five distinct identifiers that the operation does not consult.
\<close>

theorem get_models_relays_upstream:
  assumes "get_by_user_id E (plugin_api_key_repo (self s)) u = Some r" and "is_active r"
    and "rq = \<lparr>req_method = ''GET'', req_url = base_url (self s) @ ''/v1/kiro/models'',
               req_json = None, req_params = None,
               req_headers = bearer_headers (decrypt_api_key E (api_key r)),
               req_timeout = 300\<rparr>"
  shows
    "sent (snd (get_models E u s)) = sent s @ [rq] \<and>
     fst (get_models E u s) =
       (case client_request E rq of
          None \<Rightarrow> Inl TransportError
        | Some resp \<Rightarrow>
            if is_success (status_code resp)
            then (case response_json E (content resp) of
                    None \<Rightarrow> Inl JSONDecodeError | Some doc \<Rightarrow> Inr doc)
            else Inl (HTTPStatusError (status_code resp) (Some (content resp)))) \<and>
     length SUPPORTED_MODELS = 5 \<and> distinct SUPPORTED_MODELS"
  using assms(3)
  by (simp add: get_models_def proxy_request_active[OF assms(1,2)] Let_def SUPPORTED_MODELS_def)

theorem get_models_relays_upstream_witness:
  "fst (get_models (demo_env (Some \<lparr>status_code = 200, content = ''{\"data\":[\"m\"]}''\<rparr>) None)
         1 demo_state) = Inr (JObj [(''data'', JArr [JStr ''m''])]) \<and>
   length SUPPORTED_MODELS = 5"
  using get_models_relays_upstream[of
      "demo_env (Some \<lparr>status_code = 200, content = ''{\"data\":[\"m\"]}''\<rparr>) None"
      demo_state 1 "\<lparr>api_key = ''enc:alice'', is_active = True\<rparr>"]
  by (simp add: demo_env_def demo_store_def demo_state_def init_def bearer_headers_def
      demo_json_def is_success_def)

subsection \<open>Streaming\<close>




text \<open>
  Claim C7. When the status of the streamed response is not a success, the first
  \<^verbatim>\<open>__anext__\<close> of the streaming proxy raises \<^verbatim>\<open>HTTPStatusError\<close>: a
  consumer observes no chunk, and the response has been closed again. The same holds
  for the streaming chat completion built on it.
\<close>

theorem stream_rejected_before_first_chunk:
  assumes "get_by_user_id E (plugin_api_key_repo (self s)) u = Some r" and "is_active r"
    and "rq = \<lparr>req_method = m, req_url = base_url (self s) @ p, req_json = j,
               req_params = None,
               req_headers = bearer_headers (decrypt_api_key E (api_key r)),
               req_timeout = 300\<rparr>"
    and "client_stream E rq = Some resp" and "\<not> is_success (stream_status resp)"
  defines "s2 \<equiv> s\<lparr>lookups := lookups s @ [u], decrypts := decrypts s @ [api_key r],
                  sent := sent s @ [rq]\<rparr>"
  defines "failure \<equiv> HTTPStatusError (stream_status resp) None"
  shows
    "anext E (proxy_stream_request u m p j) s = (Raise failure, Finished, s2) \<and>
     consume E (proxy_stream_request u m p j) s = ([], Raise failure, Finished, s2) \<and>
     open_streams s2 = open_streams s \<and>
     (m = ''POST'' \<and> p = ''/v1/kiro/chat/completions'' \<and> j = Some d \<longrightarrow>
        consume_stream E (chat_completions_stream u d) s = ([], Raise failure, Exhausted, s2))"
proof -
  have s2: "s2 = s\<lparr>lookups := lookups s @ [u], decrypts := decrypts s @ [api_key r],
      sent := sent s @ [rq]\<rparr>"
    by (simp add: s2_def)
  have "open_streams s2 = open_streams s"
    by (simp add: s2)
  moreover have "consume_stream E (chat_completions_stream u d) s =
      ([], Raise failure, Exhausted, s2)"
    if "m = ''POST'' \<and> p = ''/v1/kiro/chat/completions'' \<and> j = Some d"
    using that assms(4,5) consume_active[OF assms(1,2,3) s2]
    by (simp add: consume_stream_unstarted failure_def)
  ultimately show ?thesis
    using assms(4,5)
    by (simp add: anext_active[OF assms(1,2,3) s2] consume_active[OF assms(1,2,3) s2]
        failure_def)
qed

theorem stream_rejected_before_first_chunk_witness:
  "consume_stream (demo_env None (Some (demo_stream 429 [''a''] EndOfStream)))
     (chat_completions_stream 1 (JObj [])) demo_state =
     ([], Raise (HTTPStatusError 429 None), Exhausted,
      demo_state\<lparr>lookups := [1], decrypts := [''enc:alice''],
        sent := [\<lparr>req_method = ''POST'', req_url = ''http://plugin/v1/kiro/chat/completions'',
                 req_json = Some (JObj []), req_params = None,
                 req_headers = [(''Authorization'', ''Bearer alice'')],
                 req_timeout = 300\<rparr>]\<rparr>)"
  using stream_rejected_before_first_chunk[of
      "demo_env None (Some (demo_stream 429 [''a''] EndOfStream))"
      demo_state 1 "\<lparr>api_key = ''enc:alice'', is_active = True\<rparr>" _
      "''POST''" "''/v1/kiro/chat/completions''" "Some (JObj [])"
      "demo_stream 429 [''a''] EndOfStream" "JObj []"]
  by (simp add: demo_env_def demo_store_def demo_state_def demo_stream_def init_def
      bearer_headers_def is_success_def)

subsection \<open>The service object and the token\<close>

text \<open>
  Claim C8. No operation changes the service object: after a call of any of the thirteen
  operations, after any step, close or full consumption of a stream, whether it succeeds
  or fails, \<open>self\<close> (the session, the settings, the repository and the base URL) is what
  it was. The token is not kept: every call looks the user up in the store again and,
  when the record is active, decrypts the key again, so two calls in a row make two
  lookups and two decryptions.
\<close>

theorem service_state_unchanged:
  defines "granted \<equiv> \<lambda>E s u.
     (case get_by_user_id E (plugin_api_key_repo (self s)) u of
        None \<Rightarrow> [] | Some r \<Rightarrow> if is_active r then [api_key r] else [])"
  shows
    "self (snd (invoke E u c s)) = self s \<and>
     lookups (snd (invoke E u c s)) = lookups s @ [u] \<and>
     decrypts (snd (invoke E u c s)) = decrypts s @ granted E s u \<and>
     lookups (snd (invoke E u c' (snd (invoke E u c s)))) = lookups s @ [u, u] \<and>
     decrypts (snd (invoke E u c' (snd (invoke E u c s)))) =
       decrypts s @ granted E s u @ granted E s u \<and>
     self (snd (snd (anext E g s))) = self s \<and>
     self (snd (aclose g s)) = self s \<and>
     self (snd (snd (snd (consume E g s)))) = self s \<and>
     self (snd (snd (anext_stream E G s))) = self s \<and>
     self (snd (snd (snd (consume_stream E G s)))) = self s \<and>
     lookups (snd (snd (anext E (proxy_stream_request u m p j) s))) = lookups s @ [u] \<and>
     decrypts (snd (snd (anext E (proxy_stream_request u m p j) s))) =
       decrypts s @ granted E s u"
proof -
  note first = invoke_frame[of E u c s]
  note second = invoke_frame[of E u c' "snd (invoke E u c s)"]
  have twice:
    "lookups (snd (invoke E u c' (snd (invoke E u c s)))) = lookups s @ [u, u] \<and>
     decrypts (snd (invoke E u c' (snd (invoke E u c s)))) =
       decrypts s @ granted E s u @ granted E s u"
    using first second by (simp add: granted_def)
  have a: "self (snd (snd (anext E g s))) = self s"
    using anext_frame[of E g s "fst (anext E g s)" "fst (snd (anext E g s))"
        "snd (snd (anext E g s))"] by simp
  have b: "self (snd (aclose g s)) = self s"
    using aclose_frame[of g s "fst (aclose g s)" "snd (aclose g s)"] by simp
  have c: "self (snd (snd (snd (consume E g s)))) = self s"
    using consume_frame[of E g s "fst (consume E g s)" "fst (snd (consume E g s))"
        "fst (snd (snd (consume E g s)))" "snd (snd (snd (consume E g s)))"] by simp
  have d: "self (snd (snd (anext_stream E G s))) = self s"
    using anext_stream_frame[of E G s "fst (anext_stream E G s)"
        "fst (snd (anext_stream E G s))" "snd (snd (anext_stream E G s))"] by simp
  have e: "lookups (snd (snd (anext E (proxy_stream_request u m p j) s))) = lookups s @ [u] \<and>
     decrypts (snd (snd (anext E (proxy_stream_request u m p j) s))) =
       decrypts s @ granted E s u"
    using anext_created_lookups[of E u m p j s
        "fst (anext E (proxy_stream_request u m p j) s)"
        "fst (snd (anext E (proxy_stream_request u m p j) s))"
        "snd (snd (anext E (proxy_stream_request u m p j) s))"]
    by (simp add: granted_def)
  from first twice a b c d e consume_stream_frame[of E G s] show ?thesis
    by (simp add: granted_def)
qed

theorem service_state_unchanged_witness:
  "self (snd (invoke (demo_env None None) 1 Get_accounts demo_state)) = self demo_state \<and>
   lookups (snd (invoke (demo_env None None) 1 Get_models
     (snd (invoke (demo_env None None) 1 Get_accounts demo_state)))) = [1, 1] \<and>
   decrypts (snd (invoke (demo_env None None) 1 Get_models
     (snd (invoke (demo_env None None) 1 Get_accounts demo_state)))) =
     [''enc:alice'', ''enc:alice'']"
  using service_state_unchanged[of "demo_env None None" 1 Get_accounts demo_state Get_models]
  by (simp add: demo_env_def demo_store_def demo_state_def)

subsection \<open>Release of the streamed response\<close>




end
